theory Spec2Isabelle
  imports Complex_Main
begin

section \<open>Room registry of the PIN chat server\<close>

text \<open>
  The server keeps three in-memory maps: \<open>rooms\<close> (PIN to room data),
  \<open>deviceRoomMap\<close> (device identifier to PIN) and \<open>socketToDeviceMap\<close>
  (socket identifier to device identifier). Four socket handlers (\<open>create_room\<close>,
  \<open>join_room\<close>, \<open>send_message\<close>, \<open>disconnect\<close>) and one timer callback
  read and write them. Each handler runs to completion, so a handler is a function
  from the registry to the new registry and the list of things it sent.

  A handler is called with a payload object and, for \<open>create_room\<close> and
  \<open>join_room\<close>, with an acknowledgement function. The fields of the payload of
  \<open>create_room\<close> may hold any value; they are modelled by what the JavaScript
  runtime answers when the handler tests, compares, parses or prints them (see
  \<open>nickname_value\<close> and \<open>limit_value\<close>). The fields of the payloads of
  \<open>join_room\<close> and \<open>send_message\<close> are strings, a field that is absent being
  the empty string (both are falsy). Numbers are IEEE 754 doubles. Instants read from
  the clock (\<open>new Date()\<close>) are natural numbers handed to the handler.
\<close>

subsection \<open>Numbers\<close>

text \<open>
  A number that \<open>parseInt\<close> can return: \<open>NaN\<close>, an infinity, or a double whose
  value is an integer.
\<close>

datatype jsnum = NaN | PosInf | NegInf | Fin int

text \<open>\<open>n >= x\<close> for the length \<open>n\<close> of an array: false when \<open>x\<close> is \<open>NaN\<close>.\<close>

fun length_ge :: "nat \<Rightarrow> jsnum \<Rightarrow> bool" where
  "length_ge n NaN = False"
| "length_ge n PosInf = False"
| "length_ge n NegInf = True"
| "length_ge n (Fin k) = (k \<le> int n)"

text \<open>
  Rounding of a real number to the nearest double, ties to the even significand
  (the result of every arithmetic operation on doubles), for numbers below
  \<open>2^1024\<close> in magnitude. \<open>binade x\<close> is the exponent \<open>e\<close> with
  \<open>2^e \<le> |x| < 2^(e+1)\<close>, and \<open>-1022\<close> for the subnormal numbers; the doubles
  of that binade are the multiples of \<open>ulp x = 2^(e-52)\<close>.
\<close>

definition round_half_even :: "real \<Rightarrow> int" where
  "round_half_even x =
     (if x - of_int \<lfloor>x\<rfloor> < 1 / 2 then \<lfloor>x\<rfloor>
      else if 1 / 2 < x - of_int \<lfloor>x\<rfloor> then \<lfloor>x\<rfloor> + 1
      else if even \<lfloor>x\<rfloor> then \<lfloor>x\<rfloor> else \<lfloor>x\<rfloor> + 1)"

definition binade :: "real \<Rightarrow> int" where
  "binade x = max \<lfloor>log 2 \<bar>x\<bar>\<rfloor> (- 1022)"

definition ulp :: "real \<Rightarrow> real" where
  "ulp x = 2 powr (of_int (binade x) - 52)"

definition to_double :: "real \<Rightarrow> real" where
  "to_double x = (if x = 0 then 0 else of_int (round_half_even (x / ulp x)) * ulp x)"

text \<open>The real numbers that are doubles.\<close>

definition is_double :: "real \<Rightarrow> bool" where
  "is_double x = (to_double x = x)"

text \<open>
  \<open>rnd i\<close> is what the \<open>i\<close>-th call of \<open>Math.random()\<close> returns: a double that is
  at least 0 and less than 1.
\<close>

definition random_source :: "(nat \<Rightarrow> real) \<Rightarrow> bool" where
  "random_source rnd = (\<forall>i. is_double (rnd i) \<and> 0 \<le> rnd i \<and> rnd i < 1)"

subsection \<open>Data\<close>

record user =
  socketId :: string
  nickname :: string
  deviceId :: string
  joinedAt :: nat

record room =
  hostSocketId :: string
  limit :: jsnum
  users :: "user list"
  createdAt :: nat

text \<open>
  \<open>timers\<close> holds the PINs captured by the pending \<open>setTimeout\<close> callbacks, oldest
  first (all are scheduled with the same delay of 300000 ms).
\<close>

record registry =
  rooms :: "string \<rightharpoonup> room"
  deviceRoomMap :: "string \<rightharpoonup> string"
  socketToDeviceMap :: "string \<rightharpoonup> string"
  timers :: "string list"

definition init_registry :: registry where
  "init_registry = \<lparr>rooms = Map.empty, deviceRoomMap = Map.empty,
     socketToDeviceMap = Map.empty, timers = []\<rparr>"

subsection \<open>The payload of \<open>create_room\<close>\<close>

text \<open>
  The field \<open>nickname\<close> as the handler sees it: \<open>nick_falsy\<close> is the value of
  \<open>!nickname\<close>; \<open>nick_text\<close> is the string that the template literal
  \<open>`${nickname}`\<close> builds, \<open>None\<close> when the conversion throws a \<open>TypeError\<close>
  (an object whose own \<open>toString\<close> is not a function, such as the JSON
  \<open>{"toString": 1}\<close>).
\<close>

record nickname_value =
  nick_falsy :: bool
  nick_text :: "string option"

text \<open>A nickname that is a string; the empty string also stands for an absent field.\<close>

definition nickname_of_string :: "string \<Rightarrow> nickname_value" where
  "nickname_of_string s = \<lparr>nick_falsy = (s = []), nick_text = Some s\<rparr>"

text \<open>
  The field \<open>limit\<close> as the handler sees it: \<open>limit_falsy\<close> is the value of
  \<open>!limit\<close>; \<open>limit_lt2\<close> is the value of \<open>limit < 2\<close> and \<open>limit_parsed\<close> the
  value of \<open>parseInt(limit, 10)\<close>, each \<open>None\<close> when the conversion of the field
  to a primitive throws a \<open>TypeError\<close>.
\<close>

record limit_value =
  limit_falsy :: bool
  limit_lt2 :: "bool option"
  limit_parsed :: "jsnum option"

text \<open>
  A limit that is the number \<open>n\<close>, an integer below \<open>10^21\<close> in magnitude that is
  a double: it prints as its decimal digits, which \<open>parseInt\<close> reads back.
\<close>

definition limit_of_int :: "int \<Rightarrow> limit_value" where
  "limit_of_int n = \<lparr>limit_falsy = (n = 0), limit_lt2 = Some (n < 2), limit_parsed = Some (Fin n)\<rparr>"

text \<open>
  The text \<open>'abc'\<close>: not empty; as a number it is \<open>NaN\<close>, so \<open>'abc' < 2\<close> is false;
  \<open>parseInt('abc', 10)\<close> is \<open>NaN\<close>.
\<close>

definition limit_text_abc :: limit_value where
  "limit_text_abc = \<lparr>limit_falsy = False, limit_lt2 = Some False, limit_parsed = Some NaN\<rparr>"

text \<open>
  The text \<open>'-5abc'\<close>: not empty; as a number it is \<open>NaN\<close>, so \<open>'-5abc' < 2\<close> is
  false; \<open>parseInt('-5abc', 10)\<close> reads the longest prefix that is an integer, -5.
\<close>

definition limit_text_minus5abc :: limit_value where
  "limit_text_minus5abc =
     \<lparr>limit_falsy = False, limit_lt2 = Some False, limit_parsed = Some (Fin (- 5))\<rparr>"

text \<open>
  The number \<open>1e21\<close>: it prints as \<open>'1e+21'\<close>, of which \<open>parseInt\<close> reads the
  prefix \<open>1\<close>.
\<close>

definition limit_number_1e21 :: limit_value where
  "limit_number_1e21 = \<lparr>limit_falsy = False, limit_lt2 = Some False, limit_parsed = Some (Fin 1)\<rparr>"

text \<open>
  The text \<open>'9007199254740993'\<close> (\<open>2^53 + 1\<close>): as a number it is not less than 2;
  \<open>parseInt\<close> reads all its digits and returns the nearest double,
  9007199254740992 (\<open>to_double_2p53_plus_1\<close>).
\<close>

definition limit_text_9007199254740993 :: limit_value where
  "limit_text_9007199254740993 =
     \<lparr>limit_falsy = False, limit_lt2 = Some False, limit_parsed = Some (Fin 9007199254740992)\<rparr>"

text \<open>The JSON object \<open>{"toString": 1}\<close> as a nickname: not falsy, without a string form.\<close>

definition nickname_without_text :: nickname_value where
  "nickname_without_text = \<lparr>nick_falsy = False, nick_text = None\<rparr>"

subsection \<open>Replies and events\<close>

text \<open>
  The error texts of the callbacks, by the name the specification gives them:
  \<open>InvalidInput\<close> is "Se requiere un nombre y un limite valido (minimo 2
  participantes)" (create) and "Datos de conexion incompletos" (join); \<open>RoomNotFound\<close>
  is "PIN invalido. La sala no existe."; \<open>RoomFull\<close> is "La sala esta llena";
  \<open>DeviceAlreadyElsewhere\<close> is "Este dispositivo ya esta en otra sala.";
  \<open>DeviceAlreadyInRoom\<close> is "Ya estas en esta sala desde este dispositivo.";
  \<open>InternalError\<close> is the text of the \<open>catch\<close> blocks, "Error al crear la sala. Por
  favor, intentalo de nuevo." for \<open>create_room\<close>.
\<close>

datatype error =
  InvalidInput | RoomNotFound | RoomFull | DeviceAlreadyElsewhere | DeviceAlreadyInRoom
  | InternalError

text \<open>\<open>Success pin participants limit\<close> is \<open>{success: true, pin, participants, limit}\<close>.\<close>

datatype response = Error error | Success string nat jsnum

datatype member_change = UserJoined string | UserLeft string

text \<open>
  \<open>RoomUpdate participants limit change\<close>, \<open>ReceiveMessage autor message timestamp\<close>;
  the content of \<open>host_info\<close> comes from the operating system and is left out.
\<close>

datatype event =
  HostInfo
  | RoomUpdate nat jsnum member_change
  | ReceiveMessage string string nat

text \<open>
  What a handler does to the transport: \<open>SocketJoin sock pin\<close> is \<open>socket.join(pin)\<close>,
  \<open>Callback r\<close> is \<open>callback(r)\<close>, \<open>Emit sock e\<close> is \<open>socket.emit\<close> and
  \<open>Broadcast pin e\<close> is \<open>io.to(pin).emit\<close>.
\<close>

datatype action =
  SocketJoin string string
  | Callback response
  | Emit string event
  | Broadcast string event

subsection \<open>PIN generation\<close>

definition digit_char :: "nat \<Rightarrow> char" where
  "digit_char d = ''0123456789'' ! d"

text \<open>\<open>Number.prototype.toString\<close> on a non-negative integer below \<open>10^21\<close>: its decimal digits.\<close>

fun toString :: "nat \<Rightarrow> string" where
  "toString n =
     (if n < 10 then [digit_char n] else toString (n div 10) @ [digit_char (n mod 10)])"

declare toString.simps [simp del]

text \<open>
  \<open>Math.floor(100000 + Math.random() * 900000).toString()\<close>, as a function of the
  double \<open>r\<close> that \<open>Math.random()\<close> returned: the product and the sum are each
  rounded to a double. It is the whole of \<open>generatePIN\<close> in the first version of the
  server and the body of the loop of \<open>generateUniquePIN\<close> in the second.
\<close>

definition generatePIN :: "real \<Rightarrow> string" where
  "generatePIN r = toString (nat \<lfloor>to_double (100000 + to_double (r * 900000))\<rfloor>)"

text \<open>
  The \<open>do ... while (rooms.has(pin))\<close> loop. \<open>rnd i\<close> is what the \<open>i\<close>-th call of
  \<open>Math.random()\<close> returns. The loop may run forever; then the value is \<open>None\<close>.
\<close>

partial_function (option) generateUniquePIN_loop ::
  "(string \<rightharpoonup> room) \<Rightarrow> (nat \<Rightarrow> real) \<Rightarrow> nat \<Rightarrow> string option" where
  "generateUniquePIN_loop rs rnd i =
     (let pin = generatePIN (rnd i) in
      if rs pin \<noteq> None then generateUniquePIN_loop rs rnd (Suc i) else Some pin)"

definition generateUniquePIN :: "(string \<rightharpoonup> room) \<Rightarrow> (nat \<Rightarrow> real) \<Rightarrow> string option" where
  "generateUniquePIN rs rnd = generateUniquePIN_loop rs rnd 0"

definition is_digit :: "char \<Rightarrow> bool" where
  "is_digit c = (c \<in> set ''0123456789'')"

text \<open>A 6-digit decimal string without a leading zero: the numbers 100000 to 999999.\<close>

definition is_pin :: "string \<Rightarrow> bool" where
  "is_pin p = (length p = 6 \<and> list_all is_digit p \<and> hd p \<noteq> CHR ''0'')"

subsection \<open>Handlers\<close>

text \<open>
  \<open>create_room\<close>, statement by statement. The test \<open>limit < 2\<close> and the call
  \<open>parseInt(limit, 10)\<close> throw when the limit has no primitive form, and the
  \<open>console.log\<close> after \<open>rooms.set\<close> and \<open>socket.join\<close> throws when the nickname has
  no string form; what is thrown is caught by the \<open>catch\<close> block, which answers
  \<open>InternalError\<close> and undoes nothing. The value is \<open>None\<close> when
  \<open>generateUniquePIN\<close> does not return.
\<close>

definition create_room ::
  "registry \<Rightarrow> string \<Rightarrow> nickname_value \<Rightarrow> limit_value \<Rightarrow> nat \<Rightarrow> (nat \<Rightarrow> real)
     \<Rightarrow> (registry \<times> action list) option" where
  "create_room st sock nick lmt now rnd =
     (if nick_falsy nick \<or> limit_falsy lmt
      then Some (st, [Callback (Error InvalidInput)])
      else
        (case limit_lt2 lmt of
           None \<Rightarrow> Some (st, [Callback (Error InternalError)])
         | Some True \<Rightarrow> Some (st, [Callback (Error InvalidInput)])
         | Some False \<Rightarrow>
             (case generateUniquePIN (rooms st) rnd of
                None \<Rightarrow> None
              | Some pin \<Rightarrow>
                  (case limit_parsed lmt of
                     None \<Rightarrow> Some (st, [Callback (Error InternalError)])
                   | Some n \<Rightarrow>
                       let roomData = \<lparr>hostSocketId = sock, limit = n, users = [], createdAt = now\<rparr>;
                           st' = st\<lparr>rooms := (rooms st)(pin \<mapsto> roomData)\<rparr>
                       in (case nick_text nick of
                             None \<Rightarrow> Some (st', [SocketJoin sock pin, Callback (Error InternalError)])
                           | Some shown \<Rightarrow>
                               Some (st',
                                 [SocketJoin sock pin, Callback (Success pin 1 (limit roomData)),
                                  Emit sock HostInfo]))))))"

definition join_room ::
  "registry \<Rightarrow> string \<Rightarrow> string \<Rightarrow> string \<Rightarrow> string \<Rightarrow> nat \<Rightarrow> registry \<times> action list" where
  "join_room st sock pin nick dev now =
     (if pin = [] \<or> nick = [] \<or> dev = [] then (st, [Callback (Error InvalidInput)])
      else
        (case rooms st pin of
          None \<Rightarrow> (st, [Callback (Error RoomNotFound)])
        | Some room \<Rightarrow>
            if length_ge (length (users room)) (limit room)
            then (st, [Callback (Error RoomFull)])
            else if deviceRoomMap st dev \<noteq> None \<and> deviceRoomMap st dev \<noteq> Some pin
            then (st, [Callback (Error DeviceAlreadyElsewhere)])
            else if list_ex (\<lambda>u. deviceId u = dev) (users room)
            then (st, [Callback (Error DeviceAlreadyInRoom)])
            else
              let user = \<lparr>socketId = sock, nickname = nick, deviceId = dev, joinedAt = now\<rparr>;
                  room' = room\<lparr>users := users room @ [user]\<rparr>
              in (st\<lparr>rooms := (rooms st)(pin \<mapsto> room'),
                      deviceRoomMap := (deviceRoomMap st)(dev \<mapsto> pin),
                      socketToDeviceMap := (socketToDeviceMap st)(sock \<mapsto> dev)\<rparr>,
                  [SocketJoin sock pin,
                   Callback (Success pin (length (users room')) (limit room')),
                   Broadcast pin (RoomUpdate (length (users room')) (limit room') (UserJoined nick)),
                   Emit sock HostInfo])))"

text \<open>
  \<open>String.prototype.trim\<close> on strings of code units below 256: the white space and
  line terminators in that range are tab, line feed, vertical tab, form feed, carriage
  return, space and no-break space.
\<close>

definition is_space :: "char \<Rightarrow> bool" where
  "is_space c = ((of_char c :: nat) \<in> {9, 10, 11, 12, 13, 32, 160})"

definition trim :: "string \<Rightarrow> string" where
  "trim s = rev (dropWhile is_space (rev (dropWhile is_space s)))"

definition send_message ::
  "registry \<Rightarrow> string \<Rightarrow> string \<Rightarrow> string \<Rightarrow> nat \<Rightarrow> registry \<times> action list" where
  "send_message st pin autor message now =
     (if pin = [] \<or> autor = [] \<or> message = [] then (st, [])
      else
        (case rooms st pin of
          None \<Rightarrow> (st, [])
        | Some room \<Rightarrow> (st, [Broadcast pin (ReceiveMessage autor (trim message) now)])))"

text \<open>\<open>Array.prototype.findIndex\<close>, with \<open>None\<close> for \<open>-1\<close>.\<close>

fun findIndex :: "('a \<Rightarrow> bool) \<Rightarrow> 'a list \<Rightarrow> nat option" where
  "findIndex P [] = None"
| "findIndex P (x # xs) =
     (if P x then Some 0 else map_option Suc (findIndex P xs))"

text \<open>\<open>xs.splice(i, 1)\<close> for an index inside the array: what is left in \<open>xs\<close>.\<close>

definition splice1 :: "nat \<Rightarrow> 'a list \<Rightarrow> 'a list" where
  "splice1 i xs = take i xs @ drop (Suc i) xs"

text \<open>
  \<open>disconnect\<close>: the device is looked up by the socket, the room by the device, and
  the member by the socket. When the room has no member left, a timer for its PIN is
  scheduled.
\<close>

definition disconnect :: "registry \<Rightarrow> string \<Rightarrow> registry \<times> action list" where
  "disconnect st sock =
     (case socketToDeviceMap st sock of
        None \<Rightarrow> (st, [])
      | Some dev \<Rightarrow>
          if dev = [] then (st, [])
          else
            (case deviceRoomMap st dev of
               None \<Rightarrow> (st, [])
             | Some pin \<Rightarrow>
                 if pin = [] then (st, [])
                 else
                   (case rooms st pin of
                      None \<Rightarrow> (st, [])
                    | Some room \<Rightarrow>
                        (case findIndex (\<lambda>u. socketId u = sock) (users room) of
                           None \<Rightarrow> (st, [])
                         | Some userIndex \<Rightarrow>
                             let user = users room ! userIndex;
                                 room' = room\<lparr>users := splice1 userIndex (users room)\<rparr>;
                                 st' = st\<lparr>rooms := (rooms st)(pin \<mapsto> room'),
                                         deviceRoomMap := (deviceRoomMap st)(dev := None),
                                         socketToDeviceMap := (socketToDeviceMap st)(sock := None)\<rparr>;
                                 out = [Broadcast pin
                                          (RoomUpdate (length (users room')) (limit room')
                                             (UserLeft (nickname user)))]
                             in if users room' = []
                                then (st'\<lparr>timers := timers st' @ [pin]\<rparr>, out)
                                else (st', out)))))"

text \<open>The callback handed to \<open>setTimeout\<close>, for the PIN it captured.\<close>

definition cleanup_callback :: "string \<Rightarrow> registry \<Rightarrow> registry" where
  "cleanup_callback pin st =
     (case rooms st pin of
        None \<Rightarrow> st
      | Some room \<Rightarrow> if users room = [] then st\<lparr>rooms := (rooms st)(pin := None)\<rparr> else st)"

text \<open>The oldest pending timer fires.\<close>

definition timer_fire :: "registry \<Rightarrow> registry" where
  "timer_fire st =
     (case timers st of
        [] \<Rightarrow> st
      | pin # rest \<Rightarrow> cleanup_callback pin (st\<lparr>timers := rest\<rparr>))"

subsection \<open>The event loop\<close>

datatype request =
  CreateRoom string nickname_value limit_value nat "nat \<Rightarrow> real"
  | JoinRoom string string string string nat
  | SendMessage string string string nat
  | Disconnect string
  | TimerFire

fun handle :: "registry \<Rightarrow> request \<Rightarrow> (registry \<times> action list) option" where
  "handle st (CreateRoom sock nick lmt now rnd) = create_room st sock nick lmt now rnd"
| "handle st (JoinRoom sock pin nick dev now) = Some (join_room st sock pin nick dev now)"
| "handle st (SendMessage pin autor message now) = Some (send_message st pin autor message now)"
| "handle st (Disconnect sock) = Some (disconnect st sock)"
| "handle st TimerFire = Some (timer_fire st, [])"

text \<open>Requests handled one after the other; \<open>None\<close> when one of them never returns.\<close>

fun run :: "registry \<Rightarrow> request list \<Rightarrow> registry option" where
  "run st [] = Some st"
| "run st (q # qs) = (case handle st q of None \<Rightarrow> None | Some (st', out) \<Rightarrow> run st' qs)"

inductive reachable :: "registry \<Rightarrow> bool" where
  reachable_init: "reachable init_registry"
| reachable_step: "reachable st \<Longrightarrow> handle st q = Some (st', out) \<Longrightarrow> reachable st'"

text \<open>The reply a handler gave through its callback, if it gave one.\<close>

fun reply :: "action list \<Rightarrow> response option" where
  "reply [] = None"
| "reply (Callback r # as) = Some r"
| "reply (a # as) = reply as"

section \<open>What the specification asks for\<close>

text \<open>
  The validation order of \<open>join_room\<close> in the words of the specification: the first
  check that fails gives the error, \<open>None\<close> when all four pass. "Room full" is
  \<open>len(members) \<ge> capacity\<close>; "device elsewhere" is that the device index maps
  the device to a different PIN; "device in room" is that a member of this room has
  the device identifier.
\<close>

definition spec_join_validation :: "registry \<Rightarrow> string \<Rightarrow> string \<Rightarrow> error option" where
  "spec_join_validation st pin dev =
     (case rooms st pin of
        None \<Rightarrow> Some RoomNotFound
      | Some room \<Rightarrow>
          if length_ge (length (users room)) (limit room) then Some RoomFull
          else if (case deviceRoomMap st dev of None \<Rightarrow> False | Some p \<Rightarrow> p \<noteq> pin)
          then Some DeviceAlreadyElsewhere
          else if list_ex (\<lambda>u. deviceId u = dev) (users room) then Some DeviceAlreadyInRoom
          else None)"

text \<open>
  The invariant \<open>len(members) \<le> capacity\<close>, for every room of the table whose
  limit is a number that is not negative.
\<close>

definition within_capacity :: "registry \<Rightarrow> bool" where
  "within_capacity st =
     (\<forall>pin room n. rooms st pin = Some room \<and> limit room = Fin n \<and> 0 \<le> n \<longrightarrow>
        int (length (users room)) \<le> n)"

text \<open>
  The invariant of the device index: for every device in it, the room of the indexed
  PIN exists and has exactly one member with that device, and no other room has one.
\<close>

definition device_index_consistent :: "registry \<Rightarrow> bool" where
  "device_index_consistent st =
     (\<forall>dev pin. deviceRoomMap st dev = Some pin \<longrightarrow>
        (\<exists>room. rooms st pin = Some room \<and>
           length (filter (\<lambda>u. deviceId u = dev) (users room)) = 1) \<and>
        (\<forall>p room. rooms st p = Some room \<and> p \<noteq> pin \<longrightarrow>
           \<not> list_ex (\<lambda>u. deviceId u = dev) (users room)))"

text \<open>A reply that is a success.\<close>

fun is_success :: "response option \<Rightarrow> bool" where
  "is_success (Some (Success pin n l)) = True"
| "is_success r = False"

text \<open>
  The registries that can be reached while connection \<open>sock\<close> has not joined a room
  with success: any request may be handled but a \<open>join_room\<close> of \<open>sock\<close> that is
  answered with a success.
\<close>

fun successful_join_by :: "string \<Rightarrow> request \<Rightarrow> action list \<Rightarrow> bool" where
  "successful_join_by sock (JoinRoom s pin nick dev now) out = (s = sock \<and> is_success (reply out))"
| "successful_join_by sock q out = False"

inductive reachable_without_join :: "string \<Rightarrow> registry \<Rightarrow> bool" for sock :: string where
  without_join_init: "reachable_without_join sock init_registry"
| without_join_step:
    "reachable_without_join sock st \<Longrightarrow> handle st q = Some (st', out) \<Longrightarrow>
     \<not> successful_join_by sock q out \<Longrightarrow> reachable_without_join sock st'"

section \<open>Registries of the examples\<close>

text \<open>
  After \<open>create_room\<close> with limit 2 on the empty registry, the first draw giving
  PIN 100000.
\<close>

definition one_room_registry :: registry where
  "one_room_registry =
     \<lparr>rooms = [''100000'' \<mapsto> \<lparr>hostSocketId = ''s0'', limit = Fin 2, users = [], createdAt = 0\<rparr>],
      deviceRoomMap = Map.empty, socketToDeviceMap = Map.empty, timers = []\<rparr>"

text \<open>A full room, a room with one member, and the three devices indexed.\<close>

definition full_room_registry :: registry where
  "full_room_registry =
     \<lparr>rooms =
        [''100000'' \<mapsto> \<lparr>hostSocketId = ''s0'', limit = Fin 2,
            users = [\<lparr>socketId = ''s1'', nickname = ''Beto'', deviceId = ''d1'', joinedAt = 1\<rparr>,
                     \<lparr>socketId = ''s2'', nickname = ''Caro'', deviceId = ''d2'', joinedAt = 2\<rparr>],
            createdAt = 0\<rparr>,
         ''200000'' \<mapsto> \<lparr>hostSocketId = ''s0'', limit = Fin 2,
            users = [\<lparr>socketId = ''s3'', nickname = ''Dani'', deviceId = ''d3'', joinedAt = 4\<rparr>],
            createdAt = 3\<rparr>],
      deviceRoomMap = [''d1'' \<mapsto> ''100000'', ''d2'' \<mapsto> ''100000'', ''d3'' \<mapsto> ''200000''],
      socketToDeviceMap = [''s1'' \<mapsto> ''d1'', ''s2'' \<mapsto> ''d2'', ''s3'' \<mapsto> ''d3''],
      timers = []\<rparr>"

text \<open>
  The only member of room 100000 left, so a timer for the PIN is pending; the device
  has joined again on a new connection before the timer fires.
\<close>

definition rejoined_registry :: registry where
  "rejoined_registry =
     \<lparr>rooms =
        [''100000'' \<mapsto> \<lparr>hostSocketId = ''s0'', limit = Fin 2,
            users = [\<lparr>socketId = ''s2'', nickname = ''Beto'', deviceId = ''d1'', joinedAt = 9\<rparr>],
            createdAt = 0\<rparr>],
      deviceRoomMap = [''d1'' \<mapsto> ''100000''],
      socketToDeviceMap = [''s2'' \<mapsto> ''d1''],
      timers = [''100000'']\<rparr>"

text \<open>A room table in which every one of the 900000 PINs is the key of a room.\<close>

definition all_pins_active :: "string \<rightharpoonup> room" where
  "all_pins_active p =
     (if is_pin p then Some \<lparr>hostSocketId = ''s0'', limit = Fin 2, users = [], createdAt = 0\<rparr>
      else None)"

text \<open>
  One connection joins the same room under two device identifiers and disconnects;
  \<open>stale_index_registry\<close> is the registry after that.
\<close>

definition double_join_requests :: "request list" where
  "double_join_requests =
     [CreateRoom ''s0'' (nickname_of_string ''Ana'') (limit_of_int 3) 0 (\<lambda>i. 0),
      JoinRoom ''s1'' ''100000'' ''Beto'' ''d1'' 1,
      JoinRoom ''s1'' ''100000'' ''Beto'' ''d2'' 2,
      Disconnect ''s1'']"

definition stale_index_registry :: registry where
  "stale_index_registry =
     \<lparr>rooms =
        [''100000'' \<mapsto> \<lparr>hostSocketId = ''s0'', limit = Fin 3,
            users = [\<lparr>socketId = ''s1'', nickname = ''Beto'', deviceId = ''d2'', joinedAt = 2\<rparr>],
            createdAt = 0\<rparr>],
      deviceRoomMap = [''d1'' \<mapsto> ''100000''],
      socketToDeviceMap = Map.empty,
      timers = []\<rparr>"

text \<open>
  A room is created with the text \<open>'abc'\<close> as its limit and three devices join it;
  \<open>unlimited_room_registry\<close> is the registry after that.
\<close>

definition text_limit_requests :: "request list" where
  "text_limit_requests =
     [CreateRoom ''s0'' (nickname_of_string ''Ana'') limit_text_abc 0 (\<lambda>i. 0),
      JoinRoom ''s1'' ''100000'' ''Beto'' ''d1'' 1,
      JoinRoom ''s2'' ''100000'' ''Caro'' ''d2'' 2,
      JoinRoom ''s3'' ''100000'' ''Dani'' ''d3'' 3]"

definition unlimited_room_registry :: registry where
  "unlimited_room_registry =
     \<lparr>rooms =
        [''100000'' \<mapsto> \<lparr>hostSocketId = ''s0'', limit = NaN,
            users = [\<lparr>socketId = ''s1'', nickname = ''Beto'', deviceId = ''d1'', joinedAt = 1\<rparr>,
                     \<lparr>socketId = ''s2'', nickname = ''Caro'', deviceId = ''d2'', joinedAt = 2\<rparr>,
                     \<lparr>socketId = ''s3'', nickname = ''Dani'', deviceId = ''d3'', joinedAt = 3\<rparr>],
            createdAt = 0\<rparr>],
      deviceRoomMap = [''d1'' \<mapsto> ''100000'', ''d2'' \<mapsto> ''100000'', ''d3'' \<mapsto> ''100000''],
      socketToDeviceMap = [''s1'' \<mapsto> ''d1'', ''s2'' \<mapsto> ''d2'', ''s3'' \<mapsto> ''d3''],
      timers = []\<rparr>"

text \<open>After \<open>create_room\<close> with the text \<open>'-5abc'\<close> as its limit on the empty registry.\<close>

definition negative_limit_registry :: registry where
  "negative_limit_registry =
     \<lparr>rooms = [''100000'' \<mapsto> \<lparr>hostSocketId = ''s0'', limit = Fin (- 5), users = [], createdAt = 0\<rparr>],
      deviceRoomMap = Map.empty, socketToDeviceMap = Map.empty, timers = []\<rparr>"

section \<open>Decimal digits\<close>

lemma is_digit_digit_char: "d < 10 \<Longrightarrow> is_digit (digit_char d)"
  unfolding is_digit_def digit_char_def by (rule nth_mem) simp

lemma digit_char_nonzero: "0 < d \<Longrightarrow> d < 10 \<Longrightarrow> digit_char d \<noteq> CHR ''0''"
proof -
  assume "0 < d" "d < 10"
  then have "d \<in> {1, 2, 3, 4, 5, 6, 7, 8, 9}" by auto
  then show ?thesis by (auto simp: digit_char_def)
qed

lemma toString_step: "10 \<le> n \<Longrightarrow> toString n = toString (n div 10) @ [digit_char (n mod 10)]"
  by (subst toString.simps) simp

lemma toString_digit: "n < 10 \<Longrightarrow> toString n = [digit_char n]"
  by (subst toString.simps) simp

lemma toString_six:
  assumes "100000 \<le> n" "n \<le> 999999"
  shows "toString n =
    [digit_char (n div 100000), digit_char (n div 10000 mod 10), digit_char (n div 1000 mod 10),
     digit_char (n div 100 mod 10), digit_char (n div 10 mod 10), digit_char (n mod 10)]"
proof -
  have div: "n div 10 div 10 = n div 100" "n div 100 div 10 = n div 1000"
    "n div 1000 div 10 = n div 10000" "n div 10000 div 10 = n div 100000"
    using div_mult2_eq [of n 10 10] div_mult2_eq [of n 100 10]
      div_mult2_eq [of n 1000 10] div_mult2_eq [of n 10000 10]
    by simp_all
  have a: "toString n = toString (n div 10) @ [digit_char (n mod 10)]"
    using assms by (intro toString_step) simp
  have b: "toString (n div 10) = toString (n div 100) @ [digit_char (n div 10 mod 10)]"
    using assms toString_step [of "n div 10"] by (simp add: div)
  have c: "toString (n div 100) = toString (n div 1000) @ [digit_char (n div 100 mod 10)]"
    using assms toString_step [of "n div 100"] by (simp add: div)
  have d: "toString (n div 1000) = toString (n div 10000) @ [digit_char (n div 1000 mod 10)]"
    using assms toString_step [of "n div 1000"] by (simp add: div)
  have e: "toString (n div 10000) = toString (n div 100000) @ [digit_char (n div 10000 mod 10)]"
    using assms toString_step [of "n div 10000"] by (simp add: div)
  have f: "toString (n div 100000) = [digit_char (n div 100000)]"
    using assms by (intro toString_digit) simp
  show ?thesis by (simp add: a b c d e f)
qed

lemma is_pin_toString:
  assumes "100000 \<le> n" "n \<le> 999999"
  shows "is_pin (toString n)"
proof -
  have "0 < n div 100000" "n div 100000 < 10" using assms by simp_all
  then show ?thesis
    by (simp add: toString_six [OF assms] is_pin_def is_digit_digit_char digit_char_nonzero)
qed

lemma toString_not_Nil: "toString n \<noteq> []"
  by (subst toString.simps) simp

section \<open>Rounding to a double\<close>

lemma round_half_even_le: "x < of_int k + 1 / 2 \<Longrightarrow> round_half_even x \<le> k"
proof -
  assume a: "x < of_int k + 1 / 2"
  have "\<lfloor>x\<rfloor> < k + 1" unfolding floor_less_iff using a by simp
  then have fl: "\<lfloor>x\<rfloor> \<le> k" by simp
  show ?thesis
  proof (cases "\<lfloor>x\<rfloor> = k")
    case True
    with a have "x - of_int \<lfloor>x\<rfloor> < 1 / 2" by simp
    then show ?thesis using True by (simp add: round_half_even_def)
  next
    case False
    with fl have "\<lfloor>x\<rfloor> + 1 \<le> k" by simp
    then show ?thesis by (simp add: round_half_even_def)
  qed
qed

lemma round_half_even_ge: "of_int k - 1 / 2 < x \<Longrightarrow> k \<le> round_half_even x"
proof -
  assume a: "of_int k - 1 / 2 < x"
  have fl: "k - 1 \<le> \<lfloor>x\<rfloor>" unfolding le_floor_iff using a by simp
  show ?thesis
  proof (cases "\<lfloor>x\<rfloor> = k - 1")
    case True
    with a have "1 / 2 < x - of_int \<lfloor>x\<rfloor>" by simp
    then show ?thesis using True by (simp add: round_half_even_def)
  next
    case False
    with fl have "k \<le> \<lfloor>x\<rfloor>" by simp
    then show ?thesis by (simp add: round_half_even_def)
  qed
qed

lemma ulp_pos: "0 < ulp x"
  by (simp add: ulp_def)

lemma binade_upper:
  assumes "x \<noteq> 0" and "\<bar>x\<bar> < 2 powr (of_int n + 1)" and "- 1022 \<le> n"
  shows "binade x \<le> n"
proof -
  have "log 2 \<bar>x\<bar> < of_int n + 1" using assms(1,2) by (simp add: log_less_iff)
  then have "\<lfloor>log 2 \<bar>x\<bar>\<rfloor> < n + 1" unfolding floor_less_iff by simp
  then show ?thesis using assms(3) by (simp add: binade_def)
qed

lemma binade_unique:
  assumes "2 powr of_int e \<le> \<bar>x\<bar>" and "\<bar>x\<bar> < 2 powr (of_int e + 1)" and "- 1022 \<le> e"
  shows "binade x = e"
proof -
  have pos: "0 < \<bar>x\<bar>" using assms(1) by (smt (verit) powr_gt_zero)
  have "of_int e \<le> log 2 \<bar>x\<bar>" using assms(1) pos by (simp add: le_log_iff)
  moreover have "log 2 \<bar>x\<bar> < of_int e + 1" using assms(2) pos by (simp add: log_less_iff)
  ultimately have "\<lfloor>log 2 \<bar>x\<bar>\<rfloor> = e" by (simp add: floor_unique)
  then show ?thesis using assms(3) by (simp add: binade_def)
qed

lemma grid_ratio:
  assumes "e - 52 \<le> j"
  shows "of_int m * 2 powr of_int j / 2 powr (of_int e - 52) = (of_int (m * 2 ^ nat (j - (e - 52))) :: real)"
proof -
  have "(2::real) powr of_int j / 2 powr (of_int e - 52) = 2 powr (of_int j - (of_int e - 52))"
    by (simp add: powr_diff)
  also have "of_int j - (of_int e - 52) = real (nat (j - (e - 52)))" using assms by simp
  also have "(2::real) powr real (nat (j - (e - 52))) = 2 ^ nat (j - (e - 52))"
    by (rule powr_realpow) simp
  finally have eq: "(2::real) powr of_int j / 2 powr (of_int e - 52) = 2 ^ nat (j - (e - 52))" .
  have "of_int m * 2 powr of_int j / 2 powr (of_int e - 52)
      = real_of_int m * (2 powr of_int j / 2 powr (of_int e - 52))"
    by (rule times_divide_eq_right [symmetric])
  also have "\<dots> = real_of_int m * 2 ^ nat (j - (e - 52))" by (simp only: eq)
  also have "\<dots> = of_int (m * 2 ^ nat (j - (e - 52)))" by simp
  finally show ?thesis .
qed

lemma ratio_times:
  fixes a q k :: real
  assumes "0 < q" and "a / q = k"
  shows "k * q = a"
  using assms nonzero_divide_eq_eq [of q a k] by auto

lemma to_double_le_grid:
  assumes "binade x - 52 \<le> j" and "x \<le> of_int m * 2 powr of_int j"
  shows "to_double x \<le> of_int m * 2 powr of_int j"
proof (cases "x = 0")
  case True
  with assms(2) show ?thesis by (simp add: to_double_def)
next
  case False
  let ?K = "m * 2 ^ nat (j - (binade x - 52))"
  have ratio: "of_int m * 2 powr of_int j / ulp x = of_int ?K"
    unfolding ulp_def by (rule grid_ratio [OF assms(1)])
  have "x / ulp x \<le> of_int m * 2 powr of_int j / ulp x"
    using assms(2) ulp_pos [of x] by (simp add: divide_right_mono)
  then have "x / ulp x < of_int ?K + 1 / 2" unfolding ratio by linarith
  then have "round_half_even (x / ulp x) \<le> ?K" by (rule round_half_even_le)
  then have "(of_int (round_half_even (x / ulp x)) :: real) \<le> of_int ?K"
    by (simp only: of_int_le_iff)
  then have "of_int (round_half_even (x / ulp x)) * ulp x \<le> of_int ?K * ulp x"
    using ulp_pos [of x] by (intro mult_right_mono) simp_all
  also have "of_int ?K * ulp x = of_int m * 2 powr of_int j"
    using ulp_pos ratio by (rule ratio_times)
  finally show ?thesis using False by (simp add: to_double_def)
qed

lemma to_double_ge_grid:
  assumes "binade x - 52 \<le> j" and "of_int m * 2 powr of_int j \<le> x"
  shows "of_int m * 2 powr of_int j \<le> to_double x"
proof (cases "x = 0")
  case True
  with assms(2) show ?thesis by (simp add: to_double_def)
next
  case False
  let ?K = "m * 2 ^ nat (j - (binade x - 52))"
  have ratio: "of_int m * 2 powr of_int j / ulp x = of_int ?K"
    unfolding ulp_def by (rule grid_ratio [OF assms(1)])
  have "of_int m * 2 powr of_int j / ulp x \<le> x / ulp x"
    using assms(2) ulp_pos [of x] by (simp add: divide_right_mono)
  then have "of_int ?K - 1 / 2 < x / ulp x" unfolding ratio by linarith
  then have "?K \<le> round_half_even (x / ulp x)" by (rule round_half_even_ge)
  then have "(of_int ?K :: real) \<le> of_int (round_half_even (x / ulp x))"
    by (simp only: of_int_le_iff)
  then have le: "of_int ?K * ulp x \<le> of_int (round_half_even (x / ulp x)) * ulp x"
    using ulp_pos [of x] by (intro mult_right_mono) simp_all
  have "of_int ?K * ulp x = of_int m * 2 powr of_int j"
    using ulp_pos ratio by (rule ratio_times)
  then have "of_int m * 2 powr of_int j = of_int ?K * ulp x" by (rule sym)
  also note le
  finally show ?thesis using False by (simp add: to_double_def)
qed

lemma to_double_exact:
  assumes "\<bar>x\<bar> < 2 powr (of_int n + 1)" and "- 1022 \<le> n"
    and "x = of_int m * 2 powr of_int j" and "n - 52 \<le> j"
  shows "to_double x = x"
proof (cases "x = 0")
  case True
  then show ?thesis by (simp add: to_double_def)
next
  case False
  have "binade x - 52 \<le> j" using binade_upper [OF False assms(1,2)] assms(4) by simp
  then have "to_double x \<le> of_int m * 2 powr of_int j" "of_int m * 2 powr of_int j \<le> to_double x"
    using assms(3) by (simp_all add: to_double_le_grid to_double_ge_grid)
  then show ?thesis using assms(3) by simp
qed

lemma to_double_nonneg: "0 \<le> x \<Longrightarrow> 0 \<le> to_double x"
  using to_double_ge_grid [of x "binade x - 52" 0] by simp

text \<open>Doubles used in the examples.\<close>

lemma to_double_0: "to_double 0 = 0"
  by (simp add: to_double_def)

lemma is_double_0: "is_double 0"
  by (simp add: is_double_def to_double_def)

lemma to_double_100000: "to_double 100000 = 100000"
  by (rule to_double_exact [where n = 19 and m = 100000 and j = 0]) simp_all

lemma is_double_half: "is_double (1 / 2)"
  unfolding is_double_def
  by (rule to_double_exact [where n = "- 1" and m = 1 and j = "- 1"]) (simp_all add: powr_minus)

lemma to_double_450000: "to_double 450000 = 450000"
  by (rule to_double_exact [where n = 19 and m = 450000 and j = 0]) simp_all

lemma to_double_550000: "to_double 550000 = 550000"
  by (rule to_double_exact [where n = 19 and m = 550000 and j = 0]) simp_all

text \<open>The double nearest to 0.7 is 3152519739159347 / 2^52.\<close>

lemma is_double_0_7: "is_double (3152519739159347 / 4503599627370496)"
  unfolding is_double_def
  by (rule to_double_exact [where n = "- 1" and m = 3152519739159347 and j = "- 52"])
     (simp_all add: powr_neg_numeral)

lemma product_0_7: "to_double (3152519739159347 / 4503599627370496 * 900000) = 630000"
proof -
  define x :: real where "x = 3152519739159347 / 4503599627370496 * 900000"
  have b: "binade x = 19" by (intro binade_unique) (simp_all add: x_def)
  have u: "ulp x = 1 / 8589934592" by (simp add: ulp_def b powr_neg_numeral)
  have y: "x / ulp x = 3152519739159347 * 900000 / 524288" by (simp only: u) (simp add: x_def)
  have "round_half_even (3152519739159347 * 900000 / 524288) = 5411658792960000"
    by (simp add: round_half_even_def)
  then have r: "round_half_even (x / ulp x) = 5411658792960000" by (simp only: y)
  have "x \<noteq> 0" by (simp add: x_def)
  then have "to_double x = of_int (round_half_even (x / ulp x)) * ulp x"
    by (simp only: to_double_def if_False)
  also have "\<dots> = of_int 5411658792960000 * (1 / 8589934592)" by (simp only: r) (simp only: u)
  also have "\<dots> = 630000" by simp
  finally show ?thesis by (simp only: x_def)
qed

text \<open>The integer \<open>2^53 + 1\<close> lies half way between two doubles and rounds to the even one.\<close>

lemma to_double_2p53_plus_1: "to_double 9007199254740993 = 9007199254740992"
proof -
  define x :: real where "x = 9007199254740993"
  have b: "binade x = 53" by (intro binade_unique) (simp_all add: x_def)
  have u: "ulp x = 2" by (simp add: ulp_def b)
  have y: "x / ulp x = 9007199254740993 / 2" by (simp only: u) (simp add: x_def)
  have "round_half_even (9007199254740993 / 2) = 4503599627370496"
    by (simp add: round_half_even_def)
  then have r: "round_half_even (x / ulp x) = 4503599627370496" by (simp only: y)
  have "x \<noteq> 0" by (simp add: x_def)
  then have "to_double x = of_int (round_half_even (x / ulp x)) * ulp x"
    by (simp only: to_double_def if_False)
  also have "\<dots> = of_int 4503599627370496 * 2" by (simp only: r) (simp only: u)
  also have "\<dots> = 9007199254740992" by simp
  finally show ?thesis by (simp only: x_def)
qed

section \<open>PIN generation\<close>

text \<open>
  The largest double below 1 is \<open>1 - 2^-53\<close>. The product with 900000 then rounds to
  at most \<open>900000 - 2^-33\<close>, and the sum with 100000 stays below 1000000.
\<close>

lemma double_below_one:
  assumes "is_double r" and "0 \<le> r" and "r < 1"
  shows "r \<le> 1 - 1 / 9007199254740992"
proof (cases "r < 1 / 2")
  case True
  then show ?thesis by simp
next
  case False
  have b: "binade r = - 1"
    using False assms(2,3) by (intro binade_unique) (simp_all add: powr_minus)
  have u: "ulp r = 1 / 9007199254740992"
    by (simp add: ulp_def b powr_neg_numeral)
  define K where "K = round_half_even (r / ulp r)"
  have r: "r = of_int K * (1 / 9007199254740992)"
    using assms(1) False assms(2) by (simp add: is_double_def to_double_def K_def u)
  with assms(3) have "real_of_int K < 9007199254740992" by simp
  then have "K < 9007199254740992" by linarith
  then have "K \<le> 9007199254740991" by simp
  then have "real_of_int K \<le> 9007199254740991" by linarith
  then show ?thesis by (subst r) (simp add: field_simps)
qed

lemma product_bound:
  assumes "is_double r" and "0 \<le> r" and "r < 1"
  shows "0 \<le> to_double (r * 900000)" and "to_double (r * 900000) \<le> 900000 - 1 / 8589934592"
proof -
  let ?x = "r * 900000"
  show "0 \<le> to_double ?x" using assms(2) by (simp add: to_double_nonneg)
  have le: "?x \<le> 900000 - 900000 / 9007199254740992"
    using double_below_one [OF assms] by simp
  consider "?x = 0" | "0 < ?x" "?x < 524288" | "524288 \<le> ?x"
    using assms(2) by fastforce
  then show "to_double ?x \<le> 900000 - 1 / 8589934592"
  proof cases
    case 1
    then show ?thesis by (simp add: to_double_def)
  next
    case 2
    then have "binade ?x \<le> 18" by (intro binade_upper) simp_all
    then have "to_double ?x \<le> of_int 1 * 2 powr of_int 19"
      using 2 by (intro to_double_le_grid) simp_all
    then show ?thesis by simp
  next
    case 3
    have b: "binade ?x = 19" using 3 le by (intro binade_unique) simp_all
    have u: "ulp ?x = 1 / 8589934592" by (simp add: ulp_def b powr_neg_numeral)
    have "?x / ulp ?x \<le> (900000 - 900000 / 9007199254740992) * 8589934592"
      using le by (simp add: u)
    then have "?x / ulp ?x < of_int (7730941132800000 - 1) + 1 / 2" by simp
    then have "round_half_even (?x / ulp ?x) \<le> 7730941132800000 - 1"
      by (rule round_half_even_le)
    then have "real_of_int (round_half_even (?x / ulp ?x)) \<le> 7730941132800000 - 1" by linarith
    then have "real_of_int (round_half_even (?x / ulp ?x)) * ulp ?x \<le> (7730941132800000 - 1) * ulp ?x"
      using ulp_pos [of ?x] by (intro mult_right_mono) simp_all
    then show ?thesis using 3 by (simp add: to_double_def u)
  qed
qed

lemma sum_bound:
  assumes "0 \<le> p" and "p \<le> 900000 - 1 / 8589934592"
  shows "100000 \<le> to_double (100000 + p)" and "to_double (100000 + p) < 1000000"
proof -
  let ?y = "100000 + p"
  have nz: "?y \<noteq> 0" using assms(1) by simp
  have "binade ?y \<le> 19" using nz assms by (intro binade_upper) simp_all
  then have low: "binade ?y - 52 \<le> 0" and high: "binade ?y - 52 \<le> - 33" by simp_all
  have "of_int 100000 * 2 powr of_int 0 \<le> to_double ?y"
    using low assms(1) by (intro to_double_ge_grid) simp_all
  then show "100000 \<le> to_double ?y" by simp
  have "to_double ?y \<le> of_int 8589934591999999 * 2 powr of_int (- 33)"
    using high assms(2) by (intro to_double_le_grid) (simp_all add: powr_neg_numeral)
  then show "to_double ?y < 1000000" by (simp add: powr_neg_numeral)
qed

lemma floor_draw:
  assumes "is_double r" and "0 \<le> r" and "r < 1"
  shows "100000 \<le> nat \<lfloor>to_double (100000 + to_double (r * 900000))\<rfloor>"
    and "nat \<lfloor>to_double (100000 + to_double (r * 900000))\<rfloor> \<le> 999999"
proof -
  let ?s = "to_double (100000 + to_double (r * 900000))"
  have s: "100000 \<le> ?s" "?s < 1000000"
    using sum_bound [OF product_bound [OF assms]] by simp_all
  have lo: "100000 \<le> \<lfloor>?s\<rfloor>" unfolding le_floor_iff using s(1) by simp
  have hi: "\<lfloor>?s\<rfloor> < 1000000" unfolding floor_less_iff using s(2) by simp
  show "100000 \<le> nat \<lfloor>?s\<rfloor>" using lo by linarith
  show "nat \<lfloor>?s\<rfloor> \<le> 999999" using lo hi by linarith
qed

lemma is_pin_generatePIN: "is_double r \<Longrightarrow> 0 \<le> r \<Longrightarrow> r < 1 \<Longrightarrow> is_pin (generatePIN r)"
  unfolding generatePIN_def by (rule is_pin_toString) (rule floor_draw; assumption)+

lemma generatePIN_0: "generatePIN 0 = ''100000''"
  by (simp add: generatePIN_def to_double_0 to_double_100000 toString.simps digit_char_def)

lemma generatePIN_half: "generatePIN (1 / 2) = ''550000''"
  by (simp add: generatePIN_def to_double_450000 to_double_550000 toString.simps digit_char_def)

text \<open>At the double nearest to 0.7 the product rounds up to 630000 and the PIN is 730000.\<close>

lemma to_double_730000: "to_double 730000 = 730000"
  by (rule to_double_exact [where n = 19 and m = 730000 and j = 0]) simp_all

lemma generatePIN_0_7: "generatePIN (3152519739159347 / 4503599627370496) = ''730000''"
  by (simp only: generatePIN_def product_0_7)
     (simp add: to_double_730000 toString.simps digit_char_def)

lemma random_source_example: "random_source (\<lambda>i. if i = 0 then 0 else 1 / 2)"
  by (simp add: random_source_def is_double_0 is_double_half)

lemma random_source_zero: "random_source (\<lambda>i. 0)"
  by (simp add: random_source_def is_double_0)

lemma loop_returns_first_free:
  "rs (generatePIN (rnd (i + k))) = None \<Longrightarrow>
   (\<forall>j<k. rs (generatePIN (rnd (i + j))) \<noteq> None) \<Longrightarrow>
   generateUniquePIN_loop rs rnd i = Some (generatePIN (rnd (i + k)))"
proof (induction k arbitrary: i)
  case 0
  then show ?case by (subst generateUniquePIN_loop.simps) simp
next
  case (Suc k)
  have used: "rs (generatePIN (rnd i)) \<noteq> None" using Suc.prems(2) [rule_format, of 0] by simp
  have "generateUniquePIN_loop rs rnd (Suc i) = Some (generatePIN (rnd (Suc i + k)))"
  proof (rule Suc.IH)
    show "rs (generatePIN (rnd (Suc i + k))) = None" using Suc.prems(1) by simp
    show "\<forall>j<k. rs (generatePIN (rnd (Suc i + j))) \<noteq> None"
    proof (intro allI impI)
      fix j assume "j < k"
      then have "Suc j < Suc k" by simp
      then have "rs (generatePIN (rnd (i + Suc j))) \<noteq> None" by (rule Suc.prems(2) [rule_format])
      then show "rs (generatePIN (rnd (Suc i + j))) \<noteq> None" by simp
    qed
  qed
  then show ?case using used by (subst generateUniquePIN_loop.simps) (simp add: Let_def)
qed

lemma loop_result:
  assumes "generateUniquePIN_loop rs rnd i = Some y"
  shows "rs y = None \<and> (\<exists>j. y = generatePIN (rnd j))"
proof (rule generateUniquePIN_loop.raw_induct
        [where P = "\<lambda>rs rnd i y. rs y = None \<and> (\<exists>j. y = generatePIN (rnd j))", OF _ assms],
       goal_cases)
  case (1 loop rs rnd i y)
  show ?case
  proof (cases "rs (generatePIN (rnd i)) = None")
    case True
    with 1(2) have "y = generatePIN (rnd i)" by (simp add: Let_def)
    with True show ?thesis by blast
  next
    case False
    with 1(2) have "loop rs rnd (Suc i) = Some y" by (simp add: Let_def)
    then show ?thesis by (rule 1(1))
  qed
qed


lemma generateUniquePIN_returns:
  assumes "\<exists>i. rs (generatePIN (rnd i)) = None"
  shows "\<exists>i. generateUniquePIN rs rnd = Some (generatePIN (rnd i)) \<and> rs (generatePIN (rnd i)) = None"
proof -
  define k where "k = (LEAST i. rs (generatePIN (rnd i)) = None)"
  have free: "rs (generatePIN (rnd k)) = None"
    unfolding k_def using assms by (rule LeastI_ex)
  have used: "\<forall>j<k. rs (generatePIN (rnd j)) \<noteq> None"
    unfolding k_def using not_less_Least by blast
  have "generateUniquePIN_loop rs rnd 0 = Some (generatePIN (rnd (0 + k)))"
    by (rule loop_returns_first_free) (use free used in simp_all)
  then show ?thesis using free by (auto simp: generateUniquePIN_def)
qed

lemma all_active_never_returns:
  assumes "random_source rnd"
  shows "generateUniquePIN all_pins_active rnd = None"
proof (cases "generateUniquePIN all_pins_active rnd")
  case None
  then show ?thesis .
next
  case (Some y)
  then obtain j where "all_pins_active y = None" "y = generatePIN (rnd j)"
    using loop_result [of all_pins_active rnd 0 y] by (auto simp: generateUniquePIN_def)
  moreover have "is_pin (generatePIN (rnd j))"
    using assms by (simp add: random_source_def is_pin_generatePIN)
  ultimately show ?thesis by (simp add: all_pins_active_def)
qed

text \<open>
  Claim C3, as amended. When every value of \<open>Math.random()\<close> is a double in \<open>[0, 1)\<close>
  and some draw gives a PIN that is not the key of an active room, \<open>generateUniquePIN\<close>
  returns, and what it returns is a 6-digit decimal string from 100000 to 999999 that
  is not the key of any active room.
\<close>

theorem generateUniquePIN_fresh:
  assumes "random_source rnd"
    and "\<exists>i. rs (generatePIN (rnd i)) = None"
  shows "\<exists>pin. generateUniquePIN rs rnd = Some pin \<and> is_pin pin \<and> rs pin = None"
proof -
  obtain i where "generateUniquePIN rs rnd = Some (generatePIN (rnd i))"
    and "rs (generatePIN (rnd i)) = None"
    using generateUniquePIN_returns [OF assms(2)] by blast
  moreover have "is_pin (generatePIN (rnd i))"
    using assms(1) by (simp add: random_source_def is_pin_generatePIN)
  ultimately show ?thesis by blast
qed

text \<open>
  Claim C3 at work: PIN 100000 is taken, the first draw is 0, which gives 100000, and
  every later draw is 1/2, which gives 550000.
\<close>

theorem generateUniquePIN_fresh_witness:
  "random_source (\<lambda>i. if i = 0 then 0 else 1 / 2) \<and>
   (\<exists>i. [''100000'' \<mapsto> \<lparr>hostSocketId = ''s0'', limit = Fin 2, users = [], createdAt = 0\<rparr>]
          (generatePIN (if i = (0::nat) then 0 else 1 / 2)) = None) \<and>
   (\<exists>pin. generateUniquePIN
            [''100000'' \<mapsto> \<lparr>hostSocketId = ''s0'', limit = Fin 2, users = [], createdAt = 0\<rparr>]
            (\<lambda>i. if i = 0 then 0 else 1 / 2) = Some pin \<and>
          is_pin pin \<and>
          [''100000'' \<mapsto> \<lparr>hostSocketId = ''s0'', limit = Fin 2, users = [], createdAt = 0\<rparr>] pin = None)"
proof -
  have h1: "random_source (\<lambda>i. if i = 0 then 0 else 1 / 2)"
    by (rule random_source_example)
  have "[''100000'' \<mapsto> \<lparr>hostSocketId = ''s0'', limit = Fin 2, users = [], createdAt = 0\<rparr>]
          (generatePIN (if (1::nat) = 0 then 0 else 1 / 2)) = None"
    by (simp add: generatePIN_half)
  then have h2: "\<exists>i. [''100000'' \<mapsto> \<lparr>hostSocketId = ''s0'', limit = Fin 2, users = [], createdAt = 0\<rparr>]
          (generatePIN (if i = (0::nat) then 0 else 1 / 2)) = None"
    by (rule exI)
  show ?thesis using h1 h2 generateUniquePIN_fresh [OF h1 h2] by blast
qed

text \<open>
  Claim C3 as it is written fails: with all 900000 PINs in use the loop draws for ever,
  whatever \<open>Math.random()\<close> returns (\<open>all_active_never_returns\<close>); here every draw
  is 0.
\<close>

theorem generateUniquePIN_all_active_counterexample:
  "generateUniquePIN all_pins_active (\<lambda>i. 0) = None"
  by (rule all_active_never_returns) (rule random_source_zero)

section \<open>The first room\<close>

lemma generateUniquePIN_not_Nil: "generateUniquePIN rs rnd = Some pin \<Longrightarrow> pin \<noteq> [] \<and> rs pin = None"
  using loop_result [of rs rnd 0 pin] by (auto simp: generateUniquePIN_def generatePIN_def toString_not_Nil)

lemma first_pin: "generateUniquePIN Map.empty (\<lambda>i. 0) = Some ''100000''"
  by (simp add: generateUniquePIN_def generateUniquePIN_loop.simps generatePIN_0)

lemma create_first_room:
  "create_room init_registry ''s0'' (nickname_of_string ''Ana'') (limit_of_int 2) 0 (\<lambda>i. 0) =
     Some (one_room_registry,
       [SocketJoin ''s0'' ''100000'', Callback (Success ''100000'' 1 (Fin 2)), Emit ''s0'' HostInfo])"
  by (simp add: create_room_def first_pin init_registry_def one_room_registry_def
        nickname_of_string_def limit_of_int_def)

lemma run_reachable: "reachable st \<Longrightarrow> run st qs = Some st' \<Longrightarrow> reachable st'"
proof (induction qs arbitrary: st)
  case Nil
  then show ?case by simp
next
  case (Cons q qs)
  then show ?case by (auto split: option.splits intro: reachable_step)
qed

section \<open>Creating a room\<close>



text \<open>
  The number \<open>1e21\<close> and the text \<open>'9007199254740993'\<close> as limit: each passes the
  test, and the limit that is stored is what \<open>parseInt\<close> returns, 1 and
  9007199254740992.
\<close>

lemma create_room_1e21:
  "create_room init_registry ''s0'' (nickname_of_string ''Ana'') limit_number_1e21 0 (\<lambda>i. 0) =
     Some (init_registry\<lparr>rooms :=
             [''100000'' \<mapsto> \<lparr>hostSocketId = ''s0'', limit = Fin 1, users = [], createdAt = 0\<rparr>]\<rparr>,
       [SocketJoin ''s0'' ''100000'', Callback (Success ''100000'' 1 (Fin 1)), Emit ''s0'' HostInfo])"
  by (simp add: create_room_def first_pin init_registry_def nickname_of_string_def
        limit_number_1e21_def)

lemma create_room_rounded_text:
  "create_room init_registry ''s0'' (nickname_of_string ''Ana'') limit_text_9007199254740993 0 (\<lambda>i. 0) =
     Some (init_registry\<lparr>rooms :=
             [''100000'' \<mapsto> \<lparr>hostSocketId = ''s0'', limit = Fin 9007199254740992, users = [],
                createdAt = 0\<rparr>]\<rparr>,
       [SocketJoin ''s0'' ''100000'', Callback (Success ''100000'' 1 (Fin 9007199254740992)),
        Emit ''s0'' HostInfo])"
  by (simp add: create_room_def first_pin init_registry_def nickname_of_string_def
        limit_text_9007199254740993_def)

section \<open>Joining a room\<close>

text \<open>
  Claim C4, as amended. A request with an empty or missing pin, nickname or device
  identifier is answered \<open>InvalidInput\<close> before any other check. For a request with
  all three present, the checks run in the order \<open>RoomNotFound\<close>, \<open>RoomFull\<close>,
  \<open>DeviceAlreadyElsewhere\<close>, \<open>DeviceAlreadyInRoom\<close>: the first one that fails is
  the one error answered, the registry is left as it was, and when none fails the
  answer is a success.
\<close>

theorem join_room_validation_order:
  "(pin = [] \<or> nick = [] \<or> dev = [] \<longrightarrow>
      join_room st sock pin nick dev now = (st, [Callback (Error InvalidInput)])) \<and>
   (pin \<noteq> [] \<and> nick \<noteq> [] \<and> dev \<noteq> [] \<longrightarrow>
      (case spec_join_validation st pin dev of
         Some e \<Rightarrow> join_room st sock pin nick dev now = (st, [Callback (Error e)])
       | None \<Rightarrow> is_success (reply (snd (join_room st sock pin nick dev now)))))"
  by (auto simp: join_room_def spec_join_validation_def Let_def split: option.splits)

text \<open>
  Claim C4 at work: a full room wins over a device that is elsewhere, a device
  elsewhere, a device already in the room, an unknown PIN, a missing device
  identifier, and a join that passes every check.
\<close>

theorem join_room_validation_order_witness:
  "join_room full_room_registry ''s9'' ''100000'' ''Eva'' ''d3'' 5 =
     (full_room_registry, [Callback (Error RoomFull)]) \<and>
   join_room full_room_registry ''s9'' ''200000'' ''Eva'' ''d1'' 5 =
     (full_room_registry, [Callback (Error DeviceAlreadyElsewhere)]) \<and>
   join_room full_room_registry ''s9'' ''200000'' ''Eva'' ''d3'' 5 =
     (full_room_registry, [Callback (Error DeviceAlreadyInRoom)]) \<and>
   join_room full_room_registry ''s9'' ''300000'' ''Eva'' ''d3'' 5 =
     (full_room_registry, [Callback (Error RoomNotFound)]) \<and>
   join_room full_room_registry ''s9'' ''300000'' ''Eva'' [] 5 =
     (full_room_registry, [Callback (Error InvalidInput)]) \<and>
   is_success (reply (snd (join_room full_room_registry ''s9'' ''200000'' ''Eva'' ''d9'' 5)))"
  using join_room_validation_order [of "''100000''" "''Eva''" "''d3''" full_room_registry "''s9''" 5]
    join_room_validation_order [of "''200000''" "''Eva''" "''d1''" full_room_registry "''s9''" 5]
    join_room_validation_order [of "''200000''" "''Eva''" "''d3''" full_room_registry "''s9''" 5]
    join_room_validation_order [of "''300000''" "''Eva''" "''d3''" full_room_registry "''s9''" 5]
    join_room_validation_order [of "''300000''" "''Eva''" "[]" full_room_registry "''s9''" 5]
    join_room_validation_order [of "''200000''" "''Eva''" "''d9''" full_room_registry "''s9''" 5]
  by (simp add: spec_join_validation_def full_room_registry_def)

text \<open>
  Claim C4 as it is written fails: no room has PIN 123456, so \<open>RoomNotFound\<close> is the
  first of the four checks to fail, yet the request has no nickname and the answer is
  \<open>InvalidInput\<close>.
\<close>

theorem join_room_missing_field_counterexample:
  "rooms init_registry ''123456'' = None \<and>
   spec_join_validation init_registry ''123456'' ''d1'' = Some RoomNotFound \<and>
   join_room init_registry ''s1'' ''123456'' [] ''d1'' 0 =
     (init_registry, [Callback (Error InvalidInput)])"
  by (simp add: join_room_def spec_join_validation_def init_registry_def)

text \<open>
  Claim C5. When \<open>join_room\<close> answers with a success, the number of participants
  in the answer is the length of the member list of the room after the new member was
  appended, and that is one more than the length before the call.
\<close>

theorem join_room_participant_count:
  assumes "join_room st sock pin nick dev now = (st', out)"
    and "reply out = Some (Success p n l)"
  shows "\<exists>room room'. rooms st pin = Some room \<and> rooms st' pin = Some room' \<and>
           users room' = users room @ [\<lparr>socketId = sock, nickname = nick, deviceId = dev, joinedAt = now\<rparr>] \<and>
           n = length (users room') \<and> n = length (users room) + 1"
  using assms
  by (auto simp: join_room_def Let_def split: if_splits option.splits)

text \<open>
  Claim C5 at work: the first join of the room with PIN 100000.
\<close>

theorem join_room_participant_count_witness:
  "join_room one_room_registry ''s1'' ''100000'' ''Beto'' ''d1'' 5 =
     (one_room_registry
        \<lparr>rooms := (rooms one_room_registry)(''100000'' \<mapsto>
             \<lparr>hostSocketId = ''s0'', limit = Fin 2,
              users = [\<lparr>socketId = ''s1'', nickname = ''Beto'', deviceId = ''d1'', joinedAt = 5\<rparr>],
              createdAt = 0\<rparr>),
          deviceRoomMap := (deviceRoomMap one_room_registry)(''d1'' \<mapsto> ''100000''),
          socketToDeviceMap := (socketToDeviceMap one_room_registry)(''s1'' \<mapsto> ''d1'')\<rparr>,
      [SocketJoin ''s1'' ''100000'', Callback (Success ''100000'' 1 (Fin 2)),
       Broadcast ''100000'' (RoomUpdate 1 (Fin 2) (UserJoined ''Beto'')), Emit ''s1'' HostInfo]) \<and>
   (\<exists>room room'. rooms one_room_registry ''100000'' = Some room \<and>
      rooms (fst (join_room one_room_registry ''s1'' ''100000'' ''Beto'' ''d1'' 5)) ''100000'' = Some room' \<and>
      users room' = users room @ [\<lparr>socketId = ''s1'', nickname = ''Beto'', deviceId = ''d1'', joinedAt = 5\<rparr>] \<and>
      (1::nat) = length (users room') \<and> (1::nat) = length (users room) + 1)"
proof -
  have run: "join_room one_room_registry ''s1'' ''100000'' ''Beto'' ''d1'' 5 =
     (one_room_registry
        \<lparr>rooms := (rooms one_room_registry)(''100000'' \<mapsto>
             \<lparr>hostSocketId = ''s0'', limit = Fin 2,
              users = [\<lparr>socketId = ''s1'', nickname = ''Beto'', deviceId = ''d1'', joinedAt = 5\<rparr>],
              createdAt = 0\<rparr>),
          deviceRoomMap := (deviceRoomMap one_room_registry)(''d1'' \<mapsto> ''100000''),
          socketToDeviceMap := (socketToDeviceMap one_room_registry)(''s1'' \<mapsto> ''d1'')\<rparr>,
      [SocketJoin ''s1'' ''100000'', Callback (Success ''100000'' 1 (Fin 2)),
       Broadcast ''100000'' (RoomUpdate 1 (Fin 2) (UserJoined ''Beto'')), Emit ''s1'' HostInfo])"
    by (simp add: join_room_def one_room_registry_def Let_def)
  have rep: "reply [SocketJoin ''s1'' ''100000'', Callback (Success ''100000'' 1 (Fin 2)),
       Broadcast ''100000'' (RoomUpdate 1 (Fin 2) (UserJoined ''Beto'')), Emit ''s1'' HostInfo]
       = Some (Success ''100000'' 1 (Fin 2))"
    by simp
  show ?thesis using join_room_participant_count [OF run rep] run by simp
qed

section \<open>Replies with an error\<close>

lemma validation_error_changes_nothing:
  "(create_room st sock nick lmt now rnd = Some (st', out) \<and> reply out = Some (Error e) \<and>
    e \<noteq> InternalError \<longrightarrow> st' = st) \<and>
   (join_room st sock' pin nick' dev now' = (st'', out') \<and> reply out' = Some (Error e') \<longrightarrow>
    st'' = st)"
  by (auto simp: create_room_def join_room_def Let_def split: if_splits option.splits bool.splits)

text \<open>
  Claim C7 fails on the code. \<open>create_room\<close> with the nickname \<open>{"toString": 1}\<close>
  and the limit 2 on the empty registry passes the test of the payload, writes the
  new room into \<open>rooms\<close> and joins the socket to it; the \<open>console.log\<close> that follows
  cannot build the text of the nickname and throws, and the \<open>catch\<close> block answers
  the error "Error al crear la sala" while room 100000 stays in the table.
\<close>

theorem create_room_error_keeps_room:
  "create_room init_registry ''s0'' nickname_without_text (limit_of_int 2) 0 (\<lambda>i. 0) =
     Some (one_room_registry, [SocketJoin ''s0'' ''100000'', Callback (Error InternalError)]) \<and>
   rooms init_registry ''100000'' = None \<and>
   rooms one_room_registry ''100000'' =
     Some \<lparr>hostSocketId = ''s0'', limit = Fin 2, users = [], createdAt = 0\<rparr>"
  by (simp add: create_room_def first_pin init_registry_def one_room_registry_def
        nickname_without_text_def limit_of_int_def)

section \<open>Relaying a message\<close>

lemma trim_Nil: "trim [] = []"
  by (simp add: trim_def)

lemma trim_example: "trim '' hola  mundo  '' = ''hola  mundo''"
  by (simp add: trim_def is_space_def)

text \<open>
  Claim C6, as amended. When pin and author are not empty, a room with the pin exists
  and the text is not empty after trimming, \<open>send_message\<close> broadcasts one
  \<open>receive_message\<close> to the room with the author, the trimmed text and the instant
  read from the clock. When the pin, the author or the text is empty or no room has
  the pin, nothing is sent and no error is answered. The registry is unchanged in both
  cases.
\<close>

theorem send_message_relay:
  "(pin \<noteq> [] \<and> autor \<noteq> [] \<and> rooms st pin \<noteq> None \<and> trim message \<noteq> [] \<longrightarrow>
      send_message st pin autor message now =
        (st, [Broadcast pin (ReceiveMessage autor (trim message) now)])) \<and>
   (pin = [] \<or> autor = [] \<or> message = [] \<or> rooms st pin = None \<longrightarrow>
      send_message st pin autor message now = (st, []))"
  by (auto simp: send_message_def trim_Nil split: option.splits)

text \<open>
  Claim C6 at work: a text with blanks around it, an unknown PIN and an empty text.
\<close>

theorem send_message_relay_witness:
  "send_message one_room_registry ''100000'' ''Ana'' '' hola '' 7 =
     (one_room_registry, [Broadcast ''100000'' (ReceiveMessage ''Ana'' ''hola'' 7)]) \<and>
   send_message one_room_registry ''999999'' ''Ana'' ''hola'' 7 = (one_room_registry, []) \<and>
   send_message one_room_registry ''100000'' ''Ana'' [] 7 = (one_room_registry, [])"
  using send_message_relay [of "''100000''" "''Ana''" one_room_registry "'' hola ''" 7]
    send_message_relay [of "''999999''" "''Ana''" one_room_registry "''hola''" 7]
    send_message_relay [of "''100000''" "''Ana''" one_room_registry "[]" 7]
  by (simp add: one_room_registry_def trim_def is_space_def)

text \<open>
  Claim C6 as it is written fails: the room exists and the text is not empty after
  trimming, but the author is empty and nothing is broadcast.
\<close>

theorem send_message_no_author_counterexample:
  "rooms one_room_registry ''100000'' \<noteq> None \<and> trim ''hola'' = ''hola'' \<and>
   send_message one_room_registry ''100000'' [] ''hola'' 7 = (one_room_registry, [])"
  by (simp add: send_message_def one_room_registry_def trim_def is_space_def)

text \<open>
  The text is tested before it is trimmed: a text of blanks only is broadcast as the
  empty text.
\<close>

lemma send_message_blank_text:
  "send_message one_room_registry ''100000'' ''Ana'' ''  '' 7 =
     (one_room_registry, [Broadcast ''100000'' (ReceiveMessage ''Ana'' [] 7)])"
  by (simp add: send_message_def one_room_registry_def trim_def is_space_def)

section \<open>The cleanup timer\<close>

text \<open>
  Claim C8. When the timer fires, a room with a member is never deleted: it is in the
  table after the callback as it was before, whatever PIN the callback captured. The
  callback changes the registry only when the room of its PIN exists and has no
  member, and then it deletes that room and nothing else. \<open>disconnect\<close> schedules a
  timer only for a room it has just left without members.
\<close>

theorem cleanup_rechecks_room:
  "(rooms st p = Some room \<and> users room \<noteq> [] \<longrightarrow>
      rooms (cleanup_callback pin st) p = Some room \<and> rooms (timer_fire st) p = Some room) \<and>
   (cleanup_callback pin st \<noteq> st \<longrightarrow>
      (\<exists>r. rooms st pin = Some r \<and> users r = []) \<and>
      cleanup_callback pin st = st\<lparr>rooms := (rooms st)(pin := None)\<rparr>) \<and>
   (disconnect st sock = (st', out) \<and> timers st' \<noteq> timers st \<longrightarrow>
      (\<exists>pin' r. timers st' = timers st @ [pin'] \<and> rooms st' pin' = Some r \<and> users r = []))"
  by (auto simp: cleanup_callback_def timer_fire_def disconnect_def Let_def
           split: option.splits list.splits if_splits)

text \<open>
  Claim C8 at work: the member came back before the timer fired and the room stays;
  an empty room is deleted; the last member leaving schedules a timer.
\<close>

theorem cleanup_rechecks_room_witness:
  "rooms (timer_fire rejoined_registry) ''100000'' = rooms rejoined_registry ''100000'' \<and>
   rooms rejoined_registry ''100000'' \<noteq> None \<and>
   cleanup_callback ''100000'' one_room_registry =
     one_room_registry\<lparr>rooms := (rooms one_room_registry)(''100000'' := None)\<rparr> \<and>
   (\<exists>r. rooms (fst (disconnect rejoined_registry ''s2'')) ''100000'' = Some r \<and> users r = []) \<and>
   timers (fst (disconnect rejoined_registry ''s2'')) = [''100000'', ''100000'']"
proof -
  let ?room = "\<lparr>hostSocketId = ''s0'', limit = Fin 2,
            users = [\<lparr>socketId = ''s2'', nickname = ''Beto'', deviceId = ''d1'', joinedAt = 9\<rparr>],
            createdAt = 0\<rparr>"
  have occupied: "rooms rejoined_registry ''100000'' = Some ?room \<and> users ?room \<noteq> []"
    by (simp add: rejoined_registry_def)
  have a: "rooms (timer_fire rejoined_registry) ''100000'' = Some ?room"
    using cleanup_rechecks_room [of rejoined_registry "''100000''" ?room] occupied by blast
  have changed: "cleanup_callback ''100000'' one_room_registry \<noteq> one_room_registry"
  proof
    assume "cleanup_callback ''100000'' one_room_registry = one_room_registry"
    then have "rooms (cleanup_callback ''100000'' one_room_registry) ''100000''
        = rooms one_room_registry ''100000''" by simp
    then show False by (simp add: cleanup_callback_def one_room_registry_def)
  qed
  have b: "cleanup_callback ''100000'' one_room_registry =
     one_room_registry\<lparr>rooms := (rooms one_room_registry)(''100000'' := None)\<rparr>"
    using cleanup_rechecks_room [of one_room_registry _ _ "''100000''"] changed by blast
  obtain st' out where d: "disconnect rejoined_registry ''s2'' = (st', out)"
    by (cases "disconnect rejoined_registry ''s2''")
  have t: "timers st' = [''100000'', ''100000'']"
    using d by (auto simp: disconnect_def rejoined_registry_def splice1_def Let_def)
  then have "timers st' \<noteq> timers rejoined_registry" by (simp add: rejoined_registry_def)
  with cleanup_rechecks_room [of rejoined_registry _ _ _ "''s2''" st' out] d
  obtain pin' r where "timers st' = timers rejoined_registry @ [pin']" "rooms st' pin' = Some r" "users r = []"
    by blast
  with t have "\<exists>r. rooms st' ''100000'' = Some r \<and> users r = []"
    by (simp add: rejoined_registry_def)
  with a b t d occupied show ?thesis by simp
qed

section \<open>Disconnect of a connection that never joined\<close>

lemma without_join_socket_unmapped:
  "reachable_without_join sock st \<Longrightarrow> socketToDeviceMap st sock = None"
proof (induction rule: reachable_without_join.induct)
  case without_join_init
  show ?case by (simp add: init_registry_def)
next
  case (without_join_step st q st' out)
  show ?case
  proof (cases q)
    case (CreateRoom s nick lmt now rnd)
    with without_join_step show ?thesis
      by (auto simp: create_room_def Let_def split: if_splits option.splits bool.splits)
  next
    case (JoinRoom s pin nick dev now)
    with without_join_step show ?thesis
      by (auto simp: join_room_def Let_def split: if_splits option.splits)
  next
    case (SendMessage pin autor message now)
    with without_join_step show ?thesis
      by (auto simp: send_message_def split: if_splits option.splits)
  next
    case (Disconnect s)
    with without_join_step show ?thesis
      by (auto simp: disconnect_def Let_def split: if_splits option.splits)
  next
    case TimerFire
    with without_join_step show ?thesis
      by (auto simp: timer_fire_def cleanup_callback_def split: if_splits option.splits list.splits)
  qed
qed

text \<open>
  Claim C10. For a connection that has not joined a room with success (so also for
  the creator of a room who never joined), \<open>disconnect\<close> leaves the room table, the
  device index, the connection index and the pending timers as they were and sends
  nothing: no room is deleted and no deletion is scheduled.
\<close>

theorem disconnect_without_join:
  "reachable_without_join sock st \<Longrightarrow> disconnect st sock = (st, [])"
  by (simp add: disconnect_def without_join_socket_unmapped)

text \<open>
  Claim C10 at work: the creator of the room with PIN 100000 disconnects.
\<close>

theorem disconnect_without_join_witness:
  "reachable_without_join ''s0'' one_room_registry \<and>
   disconnect one_room_registry ''s0'' = (one_room_registry, [])"
proof -
  have "handle init_registry (CreateRoom ''s0'' (nickname_of_string ''Ana'') (limit_of_int 2) 0 (\<lambda>i. 0)) =
          Some (one_room_registry,
            [SocketJoin ''s0'' ''100000'', Callback (Success ''100000'' 1 (Fin 2)), Emit ''s0'' HostInfo])"
    by (simp add: create_first_room)
  then have r: "reachable_without_join ''s0'' one_room_registry"
    by (rule without_join_step [OF without_join_init]) simp
  show ?thesis using r disconnect_without_join [OF r] by simp
qed

section \<open>Capacity\<close>

text \<open>
  What holds of the capacity: in every reachable registry a room whose limit is a
  number that is not negative has at most that many members
  (\<open>reachable_within_capacity\<close>), and a room created with limit 2 takes two devices
  and answers \<open>RoomFull\<close> to the third (\<open>limit_two_scenario\<close>).
\<close>

lemma length_splice1: "length (splice1 i xs) \<le> length xs"
  by (simp add: splice1_def)

lemma within_capacity_init: "within_capacity init_registry"
  by (simp add: within_capacity_def init_registry_def)

lemma within_capacity_create_room:
  "within_capacity st \<Longrightarrow> create_room st sock nick lmt now rnd = Some (st', out) \<Longrightarrow> within_capacity st'"
  by (auto simp: within_capacity_def create_room_def Let_def split: if_splits option.splits bool.splits)

lemma within_capacity_join_room:
  "within_capacity st \<Longrightarrow> join_room st sock pin nick dev now = (st', out) \<Longrightarrow> within_capacity st'"
  by (auto simp: within_capacity_def join_room_def Let_def split: if_splits option.splits)

lemma within_capacity_send_message:
  "within_capacity st \<Longrightarrow> send_message st pin autor message now = (st', out) \<Longrightarrow> within_capacity st'"
  by (auto simp: send_message_def split: if_splits option.splits)

lemma within_capacity_disconnect:
  assumes "within_capacity st" and "disconnect st sock = (st', out)"
  shows "within_capacity st'"
proof (cases "st' = st")
  case True
  with assms show ?thesis by simp
next
  case False
  with assms(2) obtain pin room us where
    room: "rooms st pin = Some room" and
    rooms': "rooms st' = (rooms st)(pin \<mapsto> room\<lparr>users := us\<rparr>)" and
    shorter: "length us \<le> length (users room)"
    by (auto simp: disconnect_def Let_def length_splice1 split: if_splits option.splits)
  have "int (length us) \<le> n" if "limit room = Fin n" "0 \<le> n" for n
    using assms(1) room shorter that by (fastforce simp: within_capacity_def)
  then show ?thesis using assms(1) by (auto simp: within_capacity_def rooms')
qed

lemma within_capacity_timer_fire: "within_capacity st \<Longrightarrow> within_capacity (timer_fire st)"
  by (auto simp: within_capacity_def timer_fire_def cleanup_callback_def
           split: list.splits option.splits if_splits)

lemma within_capacity_handle:
  "within_capacity st \<Longrightarrow> handle st q = Some (st', out) \<Longrightarrow> within_capacity st'"
  by (cases q)
     (auto intro: within_capacity_create_room within_capacity_join_room
        within_capacity_send_message within_capacity_disconnect within_capacity_timer_fire)

lemma reachable_within_capacity: "reachable st \<Longrightarrow> within_capacity st"
  by (induction rule: reachable.induct) (auto intro: within_capacity_init within_capacity_handle)

lemma limit_two_scenario:
  assumes create: "create_room reg h hn lv ht rnd = Some (ra, oa)"
    and created: "reply oa = Some (Success pin k (Fin 2))"
    and names: "xn \<noteq> []" "yn \<noteq> []" "zn \<noteq> []"
    and devs: "xd \<noteq> []" "yd \<noteq> []" "zd \<noteq> []" "xd \<noteq> yd"
    and free: "deviceRoomMap reg xd = None" "deviceRoomMap reg yd = None"
    and j1: "join_room ra x pin xn xd xt = (rb, ob)"
    and j2: "join_room rb y pin yn yd yt = (rc, oc)"
    and j3: "join_room rc z pin zn zd zt = (rd, od)"
  shows "reply ob = Some (Success pin 1 (Fin 2)) \<and> reply oc = Some (Success pin 2 (Fin 2)) \<and>
         reply od = Some (Error RoomFull) \<and> rd = rc"
proof -
  from create created have pin: "pin \<noteq> []" and
    ra: "ra = reg\<lparr>rooms := (rooms reg)(pin \<mapsto>
            \<lparr>hostSocketId = h, limit = Fin 2, users = [], createdAt = ht\<rparr>)\<rparr>"
    by (auto simp: create_room_def Let_def dest: generateUniquePIN_not_Nil
             split: if_splits option.splits bool.splits)
  define u1 where "u1 = \<lparr>socketId = x, nickname = xn, deviceId = xd, joinedAt = xt\<rparr>"
  define u2 where "u2 = \<lparr>socketId = y, nickname = yn, deviceId = yd, joinedAt = yt\<rparr>"
  from j1 have ob: "reply ob = Some (Success pin 1 (Fin 2))" and
    rb: "rb = ra\<lparr>rooms := (rooms ra)(pin \<mapsto>
                  \<lparr>hostSocketId = h, limit = Fin 2, users = [u1], createdAt = ht\<rparr>),
                 deviceRoomMap := (deviceRoomMap ra)(xd \<mapsto> pin),
                 socketToDeviceMap := (socketToDeviceMap ra)(x \<mapsto> xd)\<rparr>"
    using pin names devs free by (auto simp: join_room_def ra u1_def Let_def)
  from j2 have oc: "reply oc = Some (Success pin 2 (Fin 2))" and
    rc: "rooms rc pin = Some \<lparr>hostSocketId = h, limit = Fin 2, users = [u1, u2], createdAt = ht\<rparr>"
    using pin names devs free by (auto simp: join_room_def ra rb u1_def u2_def Let_def)
  from j3 have "reply od = Some (Error RoomFull) \<and> rd = rc"
    using pin names devs rc by (auto simp: join_room_def)
  with ob oc show ?thesis by simp
qed

lemma limit_two_example:
  "reply (snd (join_room one_room_registry ''s1'' ''100000'' ''Beto'' ''d1'' 1)) =
     Some (Success ''100000'' 1 (Fin 2)) \<and>
   reply (snd (join_room (fst (join_room one_room_registry ''s1'' ''100000'' ''Beto'' ''d1'' 1))
       ''s2'' ''100000'' ''Caro'' ''d2'' 2)) = Some (Success ''100000'' 2 (Fin 2)) \<and>
   reply (snd (join_room (fst (join_room (fst (join_room one_room_registry ''s1'' ''100000'' ''Beto'' ''d1'' 1))
       ''s2'' ''100000'' ''Caro'' ''d2'' 2)) ''s3'' ''100000'' ''Dani'' ''d3'' 3)) = Some (Error RoomFull)"
proof -
  let ?j1 = "join_room one_room_registry ''s1'' ''100000'' ''Beto'' ''d1'' 1"
  let ?j2 = "join_room (fst ?j1) ''s2'' ''100000'' ''Caro'' ''d2'' 2"
  let ?j3 = "join_room (fst ?j2) ''s3'' ''100000'' ''Dani'' ''d3'' 3"
  show ?thesis
    using limit_two_scenario [OF create_first_room, where pin = "''100000''" and k = 1
        and xn = "''Beto''" and yn = "''Caro''" and zn = "''Dani''"
        and xd = "''d1''" and yd = "''d2''" and zd = "''d3''"
        and x = "''s1''" and xt = 1 and rb = "fst ?j1" and ob = "snd ?j1"
        and y = "''s2''" and yt = 2 and rc = "fst ?j2" and oc = "snd ?j2"
        and z = "''s3''" and zt = 3 and rd = "fst ?j3" and od = "snd ?j3"]
    by (simp add: init_registry_def)
qed

lemma text_limit_run: "run init_registry text_limit_requests = Some unlimited_room_registry"
  by (simp add: text_limit_requests_def unlimited_room_registry_def create_room_def first_pin
        init_registry_def join_room_def Let_def nickname_of_string_def limit_text_abc_def
        fun_upd_twist)

lemma unlimited_room_reachable: "reachable unlimited_room_registry"
  using reachable_init text_limit_run by (rule run_reachable)

text \<open>
  Claim C2 fails on the code. \<open>create_room\<close> with the text \<open>'abc'\<close> as limit passes
  the test \<open>!limit || limit < 2\<close> (the comparison with \<open>NaN\<close> is false) and stores
  \<open>parseInt('abc', 10)\<close>, which is \<open>NaN\<close>; the test \<open>users.length >= limit\<close> of
  \<open>join_room\<close> is then never true, so the room takes every device: after three joins
  it has three members and no capacity they are within. With the text \<open>'-5abc'\<close> the
  stored limit is -5: the room has more members (none) than its capacity from the
  start, and every join is answered \<open>RoomFull\<close>.
\<close>

theorem text_limit_room_unbounded:
  "run init_registry text_limit_requests = Some unlimited_room_registry \<and>
   rooms unlimited_room_registry ''100000'' =
     Some \<lparr>hostSocketId = ''s0'', limit = NaN,
        users = [\<lparr>socketId = ''s1'', nickname = ''Beto'', deviceId = ''d1'', joinedAt = 1\<rparr>,
                 \<lparr>socketId = ''s2'', nickname = ''Caro'', deviceId = ''d2'', joinedAt = 2\<rparr>,
                 \<lparr>socketId = ''s3'', nickname = ''Dani'', deviceId = ''d3'', joinedAt = 3\<rparr>],
        createdAt = 0\<rparr> \<and>
   create_room init_registry ''s0'' (nickname_of_string ''Ana'') limit_text_minus5abc 0 (\<lambda>i. 0) =
     Some (negative_limit_registry,
       [SocketJoin ''s0'' ''100000'', Callback (Success ''100000'' 1 (Fin (- 5))),
        Emit ''s0'' HostInfo]) \<and>
   join_room negative_limit_registry ''s1'' ''100000'' ''Beto'' ''d1'' 1 =
     (negative_limit_registry, [Callback (Error RoomFull)])"
  by (simp add: text_limit_run)
     (simp add: unlimited_room_registry_def negative_limit_registry_def create_room_def first_pin
        init_registry_def join_room_def nickname_of_string_def limit_text_minus5abc_def)

section \<open>The device index\<close>

lemma double_join_run: "run init_registry double_join_requests = Some stale_index_registry"
  by (simp add: double_join_requests_def stale_index_registry_def create_room_def first_pin
        init_registry_def join_room_def disconnect_def splice1_def Let_def fun_upd_twist
        nickname_of_string_def limit_of_int_def)

lemma stale_index_reachable: "reachable stale_index_registry"
  using reachable_init double_join_run by (rule run_reachable)

lemma stale_index_inconsistent: "\<not> device_index_consistent stale_index_registry"
  by (auto simp: device_index_consistent_def stale_index_registry_def dest!: spec [of _ "''d1''"])

text \<open>
  Claim C1 fails on the code. Connection s1 joins room 100000 as device d1 and again
  as device d2, then disconnects: \<open>disconnect\<close> finds device d2 through the
  connection index but removes the first member with that connection, which is the
  member of device d1, and deletes the index entry of d2. Device d1 is then indexed to
  room 100000, whose only member has device d2 (\<open>stale_index_inconsistent\<close>).
\<close>

theorem double_join_disconnect:
  "run init_registry double_join_requests = Some stale_index_registry \<and>
   deviceRoomMap stale_index_registry ''d1'' = Some ''100000'' \<and>
   rooms stale_index_registry ''100000'' =
     Some \<lparr>hostSocketId = ''s0'', limit = Fin 3,
       users = [\<lparr>socketId = ''s1'', nickname = ''Beto'', deviceId = ''d2'', joinedAt = 2\<rparr>],
       createdAt = 0\<rparr> \<and>
   deviceRoomMap stale_index_registry ''d2'' = None"
  by (simp add: double_join_run) (simp add: stale_index_registry_def)

end
